theory Spec2Isabelle
  imports Main "HOL-Library.Word"
begin

section \<open>JavaScript values\<close>

text \<open>
  The provisioning service client (\<^verbatim>\<open>DeviceEnrollment\<close>) inspects its arguments at run time
  with truthiness tests and \<^verbatim>\<open>typeof\<close>, so the arguments are modelled as dynamically typed
  values.

  A string is the list of its UTF-16 code units, as in the language; \<open>str\<close> turns a literal of
  the program text into such a string.
\<close>

type_synonym jsstring = "16 word list"

definition str :: "string \<Rightarrow> jsstring" where
  "str s = map of_char s"

text \<open>
  Numbers are the integers that a number of the language holds exactly and prints in plain
  decimal, from \<open>-2^53\<close> to \<open>2^53 - 1\<close> (a 54-bit word read as signed), and NaN, the one other
  number that is falsy. Fractions, infinities and larger magnitudes are not modelled; the
  program never computes with a number, it only tests, stores and prints one. A function
  value carries its source text, which is what string conversion yields; an object is a plain
  data object, the list of its own properties in insertion order; an array is the list of its
  elements.
\<close>

datatype jsval =
    JUndefined
  | JNull
  | JBool bool
  | JNum "54 word"
  | JNaN
  | JStr jsstring
  | JFun jsstring
  | JObj "(jsstring \<times> jsval) list"
  | JArr "jsval list"

text \<open>
  \<^verbatim>\<open>!x\<close> is \<open>\<not> truthy x\<close>: undefined, null, false, zero, NaN and the empty string are falsy.
\<close>

fun truthy :: "jsval \<Rightarrow> bool" where
  "truthy JUndefined = False"
| "truthy JNull = False"
| "truthy (JBool b) = b"
| "truthy (JNum n) = (n \<noteq> 0)"
| "truthy JNaN = False"
| "truthy (JStr s) = (s \<noteq> [])"
| "truthy (JFun f) = True"
| "truthy (JObj ps) = True"
| "truthy (JArr xs) = True"

fun typeof :: "jsval \<Rightarrow> jsstring" where
  "typeof JUndefined = str ''undefined''"
| "typeof JNull = str ''object''"
| "typeof (JBool b) = str ''boolean''"
| "typeof (JNum n) = str ''number''"
| "typeof JNaN = str ''number''"
| "typeof (JStr s) = str ''string''"
| "typeof (JFun f) = str ''function''"
| "typeof (JObj ps) = str ''object''"
| "typeof (JArr xs) = str ''object''"

text \<open>
  Reading a property \<^verbatim>\<open>x.k\<close>. The program reads properties of truthy values only (each read
  follows a truthiness test of the object), so the TypeError of a read on undefined or null
  cannot arise; a primitive, a function or an array has none of the properties the program
  reads.
\<close>

fun get_prop :: "jsval \<Rightarrow> jsstring \<Rightarrow> jsval" where
  "get_prop (JObj ps) k = (case map_of ps k of Some v \<Rightarrow> v | None \<Rightarrow> JUndefined)"
| "get_prop v k = JUndefined"

text \<open>Assigning a property \<^verbatim>\<open>o[k] = v\<close> of a header bag: replaced in place, or added last.\<close>

fun set_prop :: "jsstring \<Rightarrow> jsval \<Rightarrow> (jsstring \<times> jsval) list \<Rightarrow> (jsstring \<times> jsval) list" where
  "set_prop k v [] = [(k, v)]"
| "set_prop k v ((k', v') # ps) = (if k' = k then (k, v) # ps else (k', v') # set_prop k v ps)"

subsection \<open>String conversion\<close>

definition decimalDigits :: string where
  "decimalDigits = ''0123456789''"

fun show_nat :: "nat \<Rightarrow> string" where
  "show_nat n = (if n < 10 then [decimalDigits ! n] else show_nat (n div 10) @ [decimalDigits ! (n mod 10)])"

declare show_nat.simps [simp del]

definition show_int :: "int \<Rightarrow> string" where
  "show_int i = (if i < 0 then CHR ''-'' # show_nat (nat (- i)) else show_nat (nat i))"

fun join_comma :: "jsstring list \<Rightarrow> jsstring" where
  "join_comma [] = []"
| "join_comma [s] = s"
| "join_comma (s # t # ss) = s @ str '','' @ join_comma (t # ss)"

text \<open>
  The conversion applied to the argument of \<^verbatim>\<open>encodeURIComponent\<close>: an integer prints in
  decimal, a plain object prints as \<^verbatim>\<open>[object Object]\<close>, an array as its elements joined by
  commas, undefined and null elements as nothing.
\<close>

fun to_string :: "jsval \<Rightarrow> jsstring" where
  "to_string JUndefined = str ''undefined''"
| "to_string JNull = str ''null''"
| "to_string (JBool b) = (if b then str ''true'' else str ''false'')"
| "to_string (JNum n) = str (show_int (sint n))"
| "to_string JNaN = str ''NaN''"
| "to_string (JStr s) = s"
| "to_string (JFun f) = f"
| "to_string (JObj ps) = str ''[object Object]''"
| "to_string (JArr xs) =
     join_comma (map (\<lambda>x. if x = JUndefined \<or> x = JNull then [] else to_string x) xs)"

section \<open>Errors\<close>

text \<open>
  The program throws \<^verbatim>\<open>ReferenceError\<close> and \<^verbatim>\<open>ArgumentError\<close>; \<^verbatim>\<open>encodeURIComponent\<close> throws
  \<^verbatim>\<open>URIError\<close>; calling a value that is not a function is a \<^verbatim>\<open>TypeError\<close>. Only the kind of an
  error is modelled, not its message.
\<close>

datatype error = ReferenceError | ArgumentError | URIError | TypeError

section \<open>Percent-encoding\<close>

text \<open>
  \<^verbatim>\<open>encodeURIComponent\<close>, as the language defines it. The letters, the digits and the marks
  \<^verbatim>\<open>- _ . ! ~ * ' ( )\<close> stand for themselves. Any other code unit is read as a code point, a
  high surrogate together with the low surrogate that must follow it; the code point is
  encoded in UTF-8 and each octet becomes \<^verbatim>\<open>%XX\<close> with upper-case hexadecimal digits. A low
  surrogate on its own, or a high surrogate not followed by a low one, is a \<^verbatim>\<open>URIError\<close>.
\<close>

definition uriUnescaped :: jsstring where
  "uriUnescaped =
     str (''ABCDEFGHIJKLMNOPQRSTUVWXYZabcdefghijklmnopqrstuvwxyz0123456789-_.!~*()'' @ [CHR 0x27])"

definition hexDigits :: string where
  "hexDigits = ''0123456789ABCDEF''"

definition percent_encode :: "nat \<Rightarrow> jsstring" where
  "percent_encode octet = str [CHR ''%'', hexDigits ! (octet div 16), hexDigits ! (octet mod 16)]"

definition utf8 :: "nat \<Rightarrow> nat list" where
  "utf8 v =
     (if v < 0x80 then [v]
      else if v < 0x800 then [0xC0 + v div 0x40, 0x80 + v mod 0x40]
      else if v < 0x10000 then
        [0xE0 + v div 0x1000, 0x80 + v div 0x40 mod 0x40, 0x80 + v mod 0x40]
      else
        [0xF0 + v div 0x40000, 0x80 + v div 0x1000 mod 0x40, 0x80 + v div 0x40 mod 0x40,
         0x80 + v mod 0x40])"

definition escape :: "nat \<Rightarrow> jsstring" where
  "escape v = concat (map percent_encode (utf8 v))"

definition highSurrogate :: "16 word \<Rightarrow> bool" where
  "highSurrogate c = (0xD800 \<le> c \<and> c \<le> 0xDBFF)"

definition lowSurrogate :: "16 word \<Rightarrow> bool" where
  "lowSurrogate c = (0xDC00 \<le> c \<and> c \<le> 0xDFFF)"

definition codePoint :: "16 word \<Rightarrow> 16 word \<Rightarrow> nat" where
  "codePoint hi lo = (unat hi - 0xD800) * 0x400 + (unat lo - 0xDC00) + 0x10000"

definition followed_by :: "jsstring \<Rightarrow> error + jsstring \<Rightarrow> error + jsstring" where
  "followed_by r rest = (case rest of Inl e \<Rightarrow> Inl e | Inr t \<Rightarrow> Inr (r @ t))"

fun encodeURIComponent :: "jsstring \<Rightarrow> error + jsstring" where
  "encodeURIComponent [] = Inr []"
| "encodeURIComponent (c # cs) =
     (if c \<in> set uriUnescaped then followed_by [c] (encodeURIComponent cs)
      else if lowSurrogate c then Inl URIError
      else if \<not> highSurrogate c then followed_by (escape (unat c)) (encodeURIComponent cs)
      else
        (case cs of
           [] \<Rightarrow> Inl URIError
         | d # ds \<Rightarrow>
             if \<not> lowSurrogate d then Inl URIError
             else followed_by (escape (codePoint c d)) (encodeURIComponent ds)))"

text \<open>A string is well formed when each surrogate is half of a pair.\<close>

fun well_formed :: "jsstring \<Rightarrow> bool" where
  "well_formed [] = True"
| "well_formed [c] = (\<not> highSurrogate c \<and> \<not> lowSurrogate c)"
| "well_formed (c # d # ds) =
     (if highSurrogate c then lowSurrogate d \<and> well_formed ds
      else \<not> lowSurrogate c \<and> well_formed (d # ds))"

section \<open>The transport collaborator\<close>

text \<open>
  The completion closures the client hands to \<^verbatim>\<open>executeApiCall\<close>, each with the variable it
  captures: the caller's callback.
\<close>

datatype completion =
    CreateOrUpdateDone jsval
  | BulkDone jsval
  | DeleteDone jsval
  | GetDone jsval
  | QueryDone jsval

record api_call =
  call_method :: jsstring
  call_path :: jsstring
  call_headers :: "(jsstring \<times> jsval) list"
  call_requestBody :: jsval
  call_done :: completion

text \<open>
  \<^verbatim>\<open>RestApiClient\<close> belongs to another package. It is modelled at its interface: constructed
  from a configuration and a user-agent string, it records every \<^verbatim>\<open>executeApiCall\<close> it receives.
\<close>

record RestApiClient =
  rc_config :: jsval
  rc_userAgent :: jsstring
  rc_calls :: "api_call list"

definition new_RestApiClient :: "jsval \<Rightarrow> jsstring \<Rightarrow> RestApiClient" where
  "new_RestApiClient config ua = \<lparr>rc_config = config, rc_userAgent = ua, rc_calls = []\<rparr>"

definition executeApiCall ::
  "jsstring \<Rightarrow> jsstring \<Rightarrow> (jsstring \<times> jsval) list \<Rightarrow> jsval \<Rightarrow> completion \<Rightarrow> RestApiClient
     \<Rightarrow> RestApiClient" where
  "executeApiCall m p hs b d client =
     client\<lparr>rc_calls := rc_calls client @
       [\<lparr>call_method = m, call_path = p, call_headers = hs, call_requestBody = b, call_done = d\<rparr>]\<rparr>"

subsection \<open>Completion\<close>

text \<open>A handler invocation: the function called and its arguments.\<close>

type_synonym invocation = "jsval \<times> jsval list"

definition call_fn :: "jsval \<Rightarrow> jsval list \<Rightarrow> error + invocation list" where
  "call_fn f args = (if typeof f = str ''function'' then Inr [(f, args)] else Inl TypeError)"

text \<open>
  What a completion closure does when the transport calls it with
  \<^verbatim>\<open>(err, result, response)\<close>: the handler invocations it makes.
\<close>

fun complete :: "completion \<Rightarrow> jsval \<Rightarrow> jsval \<Rightarrow> jsval \<Rightarrow> error + invocation list" where
  "complete (CreateOrUpdateDone callback) err res resp =
     (if truthy callback then
        (if truthy err then call_fn callback [err] else call_fn callback [JNull, res, resp])
      else Inr [])"
| "complete (BulkDone callback) err res resp =
     (if truthy callback then
        (if truthy err then call_fn callback [err] else call_fn callback [JNull, res, resp])
      else Inr [])"
| "complete (DeleteDone suppliedCallback) err res resp =
     (if truthy suppliedCallback then
        (if truthy err then call_fn suppliedCallback [err] else call_fn suppliedCallback [JNull])
      else Inr [])"
| "complete (GetDone getCallback) err res resp =
     (if truthy err then call_fn getCallback [err] else call_fn getCallback [JNull, res, resp])"
| "complete (QueryDone done) err res resp = call_fn done [err, res, resp]"

section \<open>The client\<close>

record DeviceEnrollment =
  this_config :: jsval
  this_restApiClient :: RestApiClient

definition enrollmentGroupsPrefix :: jsstring where
  "enrollmentGroupsPrefix = str ''/enrollmentGroups/''"

definition enrollmentsPrefix :: jsstring where
  "enrollmentsPrefix = str ''/enrollments/''"

definition registrationsPrefix :: jsstring where
  "registrationsPrefix = str ''/registrations/''"

text \<open>The name and version read from \<^verbatim>\<open>package.json\<close>, a parameter of the constructor here.\<close>

record packageJson =
  pkg_name :: jsstring
  pkg_version :: jsstring

text \<open>
  The constructor. The second component of the state counts the \<^verbatim>\<open>RestApiClient\<close> objects
  instantiated so far; the optional second argument is \<open>None\<close> when it is not provided.
  (The static \<^verbatim>\<open>fromConnectionString\<close> derives a configuration through collaborators of other
  packages and the clock, then calls the constructor; it is not modelled.)
\<close>

definition constructor ::
  "packageJson \<Rightarrow> jsval \<Rightarrow> RestApiClient option \<Rightarrow> nat \<Rightarrow> (error + DeviceEnrollment) \<times> nat" where
  "constructor pkg config restApiClient instantiated =
     (if \<not> truthy config then (Inl ReferenceError, instantiated)
      else if \<not> truthy (get_prop config (str ''host'')) \<or>
              \<not> truthy (get_prop config (str ''sharedAccessSignature''))
        then (Inl ArgumentError, instantiated)
      else (case restApiClient of
              Some r \<Rightarrow> (Inr \<lparr>this_config = config, this_restApiClient = r\<rparr>, instantiated)
            | None \<Rightarrow>
                (Inr \<lparr>this_config = config,
                      this_restApiClient =
                        new_RestApiClient config (pkg_name pkg @ str ''/'' @ pkg_version pkg)\<rparr>,
                 Suc instantiated)))"

text \<open>
  A method returns the error it throws, if any, and the client afterwards. The requests it
  issues are the calls added to the transport's record.
\<close>

type_synonym outcome = "error option \<times> DeviceEnrollment"

definition throw :: "error \<Rightarrow> DeviceEnrollment \<Rightarrow> outcome" where
  "throw e this = (Some e, this)"

definition send ::
  "jsstring \<Rightarrow> jsstring \<Rightarrow> (jsstring \<times> jsval) list \<Rightarrow> jsval \<Rightarrow> completion \<Rightarrow> DeviceEnrollment
     \<Rightarrow> outcome" where
  "send m p hs b d this =
     (None, this\<lparr>this_restApiClient := executeApiCall m p hs b d (this_restApiClient this)\<rparr>)"

definition versionQueryString :: jsstring where
  "versionQueryString = str ''?api-version=2017-08-31-preview''"

definition bulkOperation :: "jsval \<Rightarrow> jsval \<Rightarrow> DeviceEnrollment \<Rightarrow> outcome" where
  "bulkOperation bulkOp callback this =
     (if \<not> truthy bulkOp then throw ReferenceError this
      else
        let path = enrollmentsPrefix @ versionQueryString;
            httpHeaders = [(str ''Accept'', JStr (str ''application/json'')),
                           (str ''Content-Type'', JStr (str ''application/json; charset=utf-8''))]
        in send (str ''POST'') path httpHeaders bulkOp (BulkDone callback) this)"

text \<open>
  \<^verbatim>\<open>_getEnrollFunc\<close> returns the page function of a query: applied to a continuation token and
  a callback, it issues the request for one page.
\<close>

definition getEnrollFunc ::
  "jsstring \<Rightarrow> jsval \<Rightarrow> jsval \<Rightarrow> jsval \<Rightarrow> jsval \<Rightarrow> DeviceEnrollment \<Rightarrow> outcome" where
  "getEnrollFunc prefix querySpecification pageSize continuationToken done this =
     (let path = prefix @ str ''query'' @ versionQueryString;
          headers0 = [(str ''Accept'', JStr (str ''application/json'')),
                      (str ''Content-Type'', JStr (str ''application/json; charset=utf-8''))];
          headers1 = (if truthy continuationToken
                      then set_prop (str ''x-ms-continuation'') continuationToken headers0
                      else headers0);
          headers2 = (if truthy pageSize
                      then set_prop (str ''x-ms-max-item-count'') pageSize headers1 else headers1)
      in send (str ''POST'') path headers2 querySpecification (QueryDone done) this)"

definition createOrUpdate :: "jsstring \<Rightarrow> jsval \<Rightarrow> jsval \<Rightarrow> DeviceEnrollment \<Rightarrow> outcome" where
  "createOrUpdate endpointPrefix enrollment callback this =
     (if \<not> truthy enrollment then throw ReferenceError this
      else
        let id' = (if endpointPrefix = enrollmentGroupsPrefix
                  then get_prop enrollment (str ''enrollmentGroupId'')
                  else get_prop enrollment (str ''registrationId''))
        in if \<not> truthy id' then throw ArgumentError this
           else
             (case encodeURIComponent (to_string id') of
                Inl e \<Rightarrow> throw e this
              | Inr encoded \<Rightarrow>
                  let path = endpointPrefix @ encoded @ versionQueryString;
                      httpHeaders =
                        [(str ''Accept'', JStr (str ''application/json'')),
                         (str ''Content-Type'', JStr (str ''application/json; charset=utf-8''))]
                  in send (str ''PUT'') path httpHeaders enrollment (CreateOrUpdateDone callback)
                       this))"

text \<open>
  The argument resolution of \<^verbatim>\<open>_delete\<close> (all of it up to the construction of the path): the
  error thrown, or the values of \<^verbatim>\<open>id\<close> (written \<open>id'\<close>), \<^verbatim>\<open>ifMatch\<close> and \<^verbatim>\<open>suppliedCallback\<close>.
\<close>

definition delete_resolve ::
  "jsstring \<Rightarrow> jsval \<Rightarrow> jsval \<Rightarrow> jsval \<Rightarrow> error + (jsval \<times> jsval \<times> jsval)" where
  "delete_resolve endpointPrefix enrollmentOrIdOrRegistration etagOrCallback deleteCallback =
     (if \<not> truthy enrollmentOrIdOrRegistration then Inl ReferenceError
      else if typeof enrollmentOrIdOrRegistration = str ''string'' then
        (if \<not> truthy etagOrCallback then Inr (enrollmentOrIdOrRegistration, JUndefined, JUndefined)
         else if typeof etagOrCallback = str ''string'' then
           (if \<not> truthy deleteCallback
              then Inr (enrollmentOrIdOrRegistration, etagOrCallback, JUndefined)
            else if typeof deleteCallback \<noteq> str ''function'' then Inl ArgumentError
            else Inr (enrollmentOrIdOrRegistration, etagOrCallback, deleteCallback))
         else if typeof etagOrCallback = str ''function''
           then Inr (enrollmentOrIdOrRegistration, JUndefined, etagOrCallback)
         else Inl ArgumentError)
      else
        (case
           (if endpointPrefix = enrollmentsPrefix then
              (if \<not> truthy (get_prop enrollmentOrIdOrRegistration (str ''registrationId''))
               then Inl ArgumentError
               else Inr (get_prop enrollmentOrIdOrRegistration (str ''registrationId'')))
            else if endpointPrefix = enrollmentGroupsPrefix then
              (if \<not> truthy (get_prop enrollmentOrIdOrRegistration (str ''enrollmentGroupId''))
               then Inl ArgumentError
               else Inr (get_prop enrollmentOrIdOrRegistration (str ''enrollmentGroupId'')))
            else if endpointPrefix = registrationsPrefix then
              (if \<not> truthy (get_prop enrollmentOrIdOrRegistration (str ''registrationId''))
               then Inl ArgumentError
               else Inr (get_prop enrollmentOrIdOrRegistration (str ''registrationId'')))
            else Inl ArgumentError)
         of
           Inl e \<Rightarrow> Inl e
         | Inr id' \<Rightarrow>
             (if \<not> truthy etagOrCallback then
                Inr (id',
                     (if truthy (get_prop enrollmentOrIdOrRegistration (str ''etag''))
                      then get_prop enrollmentOrIdOrRegistration (str ''etag'') else JUndefined),
                     JUndefined)
              else if typeof etagOrCallback \<noteq> str ''function'' then Inl ArgumentError
              else
                Inr (id',
                     (if truthy (get_prop enrollmentOrIdOrRegistration (str ''etag''))
                      then get_prop enrollmentOrIdOrRegistration (str ''etag'') else JUndefined),
                     etagOrCallback))))"

definition delete ::
  "jsstring \<Rightarrow> jsval \<Rightarrow> jsval \<Rightarrow> jsval \<Rightarrow> DeviceEnrollment \<Rightarrow> outcome" where
  "delete endpointPrefix enrollmentOrIdOrRegistration etagOrCallback deleteCallback this =
     (case delete_resolve endpointPrefix enrollmentOrIdOrRegistration etagOrCallback deleteCallback of
        Inl e \<Rightarrow> throw e this
      | Inr (id', ifMatch, suppliedCallback) \<Rightarrow>
          (case encodeURIComponent (to_string id') of
             Inl e \<Rightarrow> throw e this
           | Inr encoded \<Rightarrow>
               let path = endpointPrefix @ encoded @ versionQueryString;
                   httpHeaders =
                     (if truthy ifMatch then set_prop (str ''If-Match'') ifMatch [] else [])
               in send (str ''DELETE'') path httpHeaders JNull (DeleteDone suppliedCallback) this))"

definition get :: "jsstring \<Rightarrow> jsval \<Rightarrow> jsval \<Rightarrow> DeviceEnrollment \<Rightarrow> outcome" where
  "get endpointPrefix id' getCallback this =
     (if \<not> truthy id' then throw ReferenceError this
      else
        (case encodeURIComponent (to_string id') of
           Inl e \<Rightarrow> throw e this
         | Inr encoded \<Rightarrow>
             let path = endpointPrefix @ encoded @ versionQueryString;
                 httpHeaders = [(str ''Accept'', JStr (str ''application/json''))]
             in send (str ''GET'') path httpHeaders JNull (GetDone getCallback) this))"

subsection \<open>The public operations\<close>

definition createOrUpdateIndividualEnrollment :: "jsval \<Rightarrow> jsval \<Rightarrow> DeviceEnrollment \<Rightarrow> outcome" where
  "createOrUpdateIndividualEnrollment enrollment callback =
     createOrUpdate enrollmentsPrefix enrollment callback"

definition deleteIndividualEnrollment ::
  "jsval \<Rightarrow> jsval \<Rightarrow> jsval \<Rightarrow> DeviceEnrollment \<Rightarrow> outcome" where
  "deleteIndividualEnrollment enrollmentOrId etagOrCallback deleteCallback =
     delete enrollmentsPrefix enrollmentOrId etagOrCallback deleteCallback"

definition getIndividualEnrollment :: "jsval \<Rightarrow> jsval \<Rightarrow> DeviceEnrollment \<Rightarrow> outcome" where
  "getIndividualEnrollment id' getCallback = get enrollmentsPrefix id' getCallback"

definition getDeviceRegistrationStatus :: "jsval \<Rightarrow> jsval \<Rightarrow> DeviceEnrollment \<Rightarrow> outcome" where
  "getDeviceRegistrationStatus id' callback = get registrationsPrefix id' callback"

definition createOrUpdateEnrollmentGroup :: "jsval \<Rightarrow> jsval \<Rightarrow> DeviceEnrollment \<Rightarrow> outcome" where
  "createOrUpdateEnrollmentGroup enrollmentGroup callback =
     createOrUpdate enrollmentGroupsPrefix enrollmentGroup callback"


definition getEnrollmentGroup :: "jsval \<Rightarrow> jsval \<Rightarrow> DeviceEnrollment \<Rightarrow> outcome" where
  "getEnrollmentGroup id' getCallback = get enrollmentGroupsPrefix id' getCallback"


text \<open>
  The three query constructors wrap the page function in a cursor object of another module;
  what is modelled is the page function they pass to it.
\<close>

definition createQueryIndividualEnrollment ::
  "jsval \<Rightarrow> jsval \<Rightarrow> jsval \<Rightarrow> jsval \<Rightarrow> DeviceEnrollment \<Rightarrow> outcome" where
  "createQueryIndividualEnrollment querySpecification pageSize =
     getEnrollFunc enrollmentsPrefix querySpecification pageSize"

definition createQueryEnrollmentGroup ::
  "jsval \<Rightarrow> jsval \<Rightarrow> jsval \<Rightarrow> jsval \<Rightarrow> DeviceEnrollment \<Rightarrow> outcome" where
  "createQueryEnrollmentGroup querySpecification pageSize =
     getEnrollFunc enrollmentGroupsPrefix querySpecification pageSize"

definition createQueryDeviceRegistrationStatus ::
  "jsval \<Rightarrow> jsval \<Rightarrow> jsval \<Rightarrow> jsval \<Rightarrow> DeviceEnrollment \<Rightarrow> outcome" where
  "createQueryDeviceRegistrationStatus querySpecification pageSize =
     getEnrollFunc registrationsPrefix querySpecification pageSize"

section \<open>Observing an operation\<close>

text \<open>The requests an operation issued: the calls it added to the transport's record.\<close>

definition new_calls :: "DeviceEnrollment \<Rightarrow> outcome \<Rightarrow> api_call list" where
  "new_calls this r =
     drop (length (rc_calls (this_restApiClient this))) (rc_calls (this_restApiClient (snd r)))"

definition header :: "api_call \<Rightarrow> jsstring \<Rightarrow> jsval option" where
  "header c k = map_of (call_headers c) k"

text \<open>
  Per request issued, in order: its method, its path, its body argument, the value of one
  header (\<open>None\<close> when the request does not carry it), its completion closure, and what that
  closure does when the transport completes the request with \<^verbatim>\<open>(err, result, response)\<close>.
\<close>

definition issued_methods :: "DeviceEnrollment \<Rightarrow> outcome \<Rightarrow> jsstring list" where
  "issued_methods this r = map call_method (new_calls this r)"

definition issued_paths :: "DeviceEnrollment \<Rightarrow> outcome \<Rightarrow> jsstring list" where
  "issued_paths this r = map call_path (new_calls this r)"

definition issued_bodies :: "DeviceEnrollment \<Rightarrow> outcome \<Rightarrow> jsval list" where
  "issued_bodies this r = map call_requestBody (new_calls this r)"

definition issued_headers :: "DeviceEnrollment \<Rightarrow> outcome \<Rightarrow> jsstring \<Rightarrow> jsval option list" where
  "issued_headers this r k = map (\<lambda>c. header c k) (new_calls this r)"

definition issued_done :: "DeviceEnrollment \<Rightarrow> outcome \<Rightarrow> completion list" where
  "issued_done this r = map call_done (new_calls this r)"

definition issued_completions ::
  "DeviceEnrollment \<Rightarrow> outcome \<Rightarrow> jsval \<Rightarrow> jsval \<Rightarrow> jsval \<Rightarrow> (error + invocation list) list" where
  "issued_completions this r err res resp =
     map (\<lambda>c. complete (call_done c) err res resp) (new_calls this r)"

text \<open>Per request issued: the names of the headers it carries.\<close>

definition issued_header_names :: "DeviceEnrollment \<Rightarrow> outcome \<Rightarrow> jsstring list list" where
  "issued_header_names this r = map (\<lambda>c. map fst (call_headers c)) (new_calls this r)"

text \<open>The identifier field a resource kind reads from an entity.\<close>

definition idField :: "jsstring \<Rightarrow> jsstring" where
  "idField endpointPrefix =
     (if endpointPrefix = enrollmentGroupsPrefix then str ''enrollmentGroupId'' else str ''registrationId'')"

text \<open>Per request issued: its \<^verbatim>\<open>Accept\<close> header, its \<^verbatim>\<open>Content-Type\<close> header and its body argument.\<close>

definition content_of ::
  "DeviceEnrollment \<Rightarrow> outcome \<Rightarrow> (jsval option \<times> jsval option \<times> jsval) list" where
  "content_of this r =
     map (\<lambda>c. (header c (str ''Accept''), header c (str ''Content-Type''), call_requestBody c)) (new_calls this r)"

text \<open>A client to run examples on: a valid configuration and a transport that has seen no call.\<close>

definition config0 :: jsval where
  "config0 =
     JObj [(str ''host'', JStr (str ''h.example.net'')),
           (str ''sharedAccessSignature'', JStr (str ''sas''))]"

definition client0 :: DeviceEnrollment where
  "client0 = \<lparr>this_config = config0,
              this_restApiClient = new_RestApiClient config0 (str ''provisioning/1.0.0'')\<rparr>"

section \<open>Basic facts\<close>

subsection \<open>Literals\<close>

lemma word16_of_nat_inj:
  "(of_nat m :: 16 word) = of_nat n \<Longrightarrow> m < 2 ^ 16 \<Longrightarrow> n < 2 ^ 16 \<Longrightarrow> m = n"
  apply (simp only: word_of_nat_eq_iff)
  apply (simp add: take_bit_nat_eq_self)
  done

lemma of_char_word16_eq_iff [simp]: "(of_char c :: 16 word) = of_char d \<longleftrightarrow> c = d"
proof
  assume "(of_char c :: 16 word) = of_char d"
  then have "(of_nat (of_char c) :: 16 word) = of_nat (of_char d)"
    by (simp only: of_nat_of_char)
  moreover have "(of_char c :: nat) < 2 ^ 16"
    by (rule less_trans [OF nat_of_char_less_256]) simp
  moreover have "(of_char d :: nat) < 2 ^ 16"
    by (rule less_trans [OF nat_of_char_less_256]) simp
  ultimately have "(of_char c :: nat) = of_char d"
    by (rule word16_of_nat_inj)
  then show "c = d" by simp
next
  assume "c = d"
  then show "(of_char c :: 16 word) = of_char d" by simp
qed

text \<open>Distinct literals are distinct strings.\<close>

lemma str_eq_iff [simp]: "str a = str b \<longleftrightarrow> a = b"
proof (induction a arbitrary: b)
  case Nil
  then show ?case by (cases b) (simp_all add: str_def)
next
  case (Cons x xs)
  then show ?case by (cases b) (simp_all add: str_def)
qed

lemma str_Nil [simp]: "str [] = []"
  by (simp add: str_def)

lemma str_eq_Nil_iff [simp]: "str s = [] \<longleftrightarrow> s = []" "[] = str s \<longleftrightarrow> s = []"
  by (simp_all add: str_def)

lemma str_append: "str (a @ b) = str a @ str b"
  by (simp add: str_def)

subsection \<open>Outcomes\<close>

lemma new_calls_send:
  "new_calls this (send m p hs b d this) =
     [\<lparr>call_method = m, call_path = p, call_headers = hs, call_requestBody = b, call_done = d\<rparr>]"
  by (simp add: new_calls_def send_def executeApiCall_def)

lemma new_calls_throw: "new_calls this (throw e this) = []"
  by (simp add: new_calls_def throw_def)

lemma fst_send: "fst (send m p hs b d this) = None"
  by (simp add: send_def)

lemma fst_throw: "fst (throw e this) = Some e"
  by (simp add: throw_def)

lemmas outcome_simps = new_calls_send new_calls_throw fst_send fst_throw

lemmas issued_defs =
  issued_methods_def issued_paths_def issued_bodies_def issued_headers_def issued_done_def
  issued_completions_def issued_header_names_def header_def

lemma map_of_set_prop:
  "map_of (set_prop k v ps) k' = (if k' = k then Some v else map_of ps k')"
  by (induction ps) auto

subsection \<open>Percent-encoding\<close>

lemma followed_by_simps [simp]:
  "followed_by r (Inl e) = Inl e" "followed_by r (Inr t) = Inr (r @ t)"
  by (simp_all add: followed_by_def)

lemma followed_by_Inr_iff: "followed_by r x = Inr t \<longleftrightarrow> (\<exists>u. x = Inr u \<and> t = r @ u)"
  by (cases x) auto

lemma followed_by_Inl_iff: "followed_by r x = Inl e \<longleftrightarrow> x = Inl e"
  by (cases x) auto

lemma unescaped_not_surrogate:
  "c \<in> set uriUnescaped \<Longrightarrow> \<not> highSurrogate c \<and> \<not> lowSurrogate c"
  by (auto simp: uriUnescaped_def str_def highSurrogate_def lowSurrogate_def)

lemma low_not_high: "lowSurrogate c \<Longrightarrow> \<not> highSurrogate c"
  unfolding lowSurrogate_def highSurrogate_def word_le_nat_alt by simp

lemma encodeURIComponent_error: "encodeURIComponent s = Inl e \<Longrightarrow> e = URIError"
  by (induction s arbitrary: e rule: encodeURIComponent.induct)
    (auto simp: followed_by_Inl_iff split: if_splits list.splits)

lemma encodeURIComponent_well_formed:
  "(\<exists>r. encodeURIComponent s = Inr r) \<longleftrightarrow> well_formed s"
proof (induction s rule: encodeURIComponent.induct)
  case 1
  show ?case by simp
next
  case (2 c cs)
  show ?case
  proof (cases "c \<in> set uriUnescaped")
    case True
    with 2(1) unescaped_not_surrogate [OF True] show ?thesis
      by (cases cs) (auto simp: followed_by_Inr_iff)
  next
    case u: False
    show ?thesis
    proof (cases "lowSurrogate c")
      case True
      with u low_not_high [OF True] show ?thesis
        by (cases cs) auto
    next
      case l: False
      show ?thesis
      proof (cases "highSurrogate c")
        case False
        with u l 2(2) show ?thesis
          by (cases cs) (auto simp: followed_by_Inr_iff)
      next
        case True
        show ?thesis
        proof (cases cs)
          case Nil
          with u l True show ?thesis by simp
        next
          case (Cons d ds)
          with u l True 2(3) [of d ds] show ?thesis
            by (auto simp: followed_by_Inr_iff)
        qed
      qed
    qed
  qed
qed












text \<open>The encoder fails on exactly the strings that are not well formed.\<close>

lemma encodeURIComponent_ill_formed:
  "\<not> well_formed s \<Longrightarrow> encodeURIComponent s = Inl URIError"
  using encodeURIComponent_well_formed [of s] encodeURIComponent_error [of s]
  by (cases "encodeURIComponent s") auto

lemmas encode_defs =
  str_def uriUnescaped_def lowSurrogate_def highSurrogate_def escape_def utf8_def
  percent_encode_def hexDigits_def codePoint_def

subsection \<open>The argument resolution of delete\<close>


lemma delete_resolve_identifier:
  "s \<noteq> [] \<Longrightarrow>
   delete_resolve p (JStr s) y z =
     (if \<not> truthy y then Inr (JStr s, JUndefined, JUndefined)
      else if typeof y = str ''string'' then
        (if \<not> truthy z then Inr (JStr s, y, JUndefined)
         else if typeof z \<noteq> str ''function'' then Inl ArgumentError
         else Inr (JStr s, y, z))
      else if typeof y = str ''function'' then Inr (JStr s, JUndefined, y)
      else Inl ArgumentError)"
  by (simp add: delete_resolve_def)

lemma idField_prefixes:
  "idField enrollmentsPrefix = str ''registrationId''"
  "idField enrollmentGroupsPrefix = str ''enrollmentGroupId''"
  "idField registrationsPrefix = str ''registrationId''"
  by (simp_all add: idField_def enrollmentsPrefix_def enrollmentGroupsPrefix_def registrationsPrefix_def)

lemma prefixes_distinct:
  "enrollmentGroupsPrefix \<noteq> enrollmentsPrefix" "registrationsPrefix \<noteq> enrollmentsPrefix"
  "registrationsPrefix \<noteq> enrollmentGroupsPrefix"
  by (simp_all add: enrollmentsPrefix_def enrollmentGroupsPrefix_def registrationsPrefix_def)

lemma delete_resolve_entity:
  assumes "p \<in> {enrollmentsPrefix, enrollmentGroupsPrefix, registrationsPrefix}"
    and "truthy (get_prop (JObj ps) (idField p))"
  shows "delete_resolve p (JObj ps) y z =
     (if \<not> truthy y then
        Inr (get_prop (JObj ps) (idField p),
             (if truthy (get_prop (JObj ps) (str ''etag''))
              then get_prop (JObj ps) (str ''etag'') else JUndefined),
             JUndefined)
      else if typeof y \<noteq> str ''function'' then Inl ArgumentError
      else
        Inr (get_prop (JObj ps) (idField p),
             (if truthy (get_prop (JObj ps) (str ''etag''))
              then get_prop (JObj ps) (str ''etag'') else JUndefined),
             y))"
proof -
  consider "p = enrollmentsPrefix" | "p = enrollmentGroupsPrefix" | "p = registrationsPrefix"
    using assms(1) by blast
  then show ?thesis
  proof cases
    case 1
    with assms(2) show ?thesis
      unfolding delete_resolve_def by (simp add: idField_prefixes del: get_prop.simps)
  next
    case 2
    with assms(2) show ?thesis
      unfolding delete_resolve_def by (simp add: idField_prefixes prefixes_distinct del: get_prop.simps)
  next
    case 3
    with assms(2) show ?thesis
      unfolding delete_resolve_def by (simp add: idField_prefixes prefixes_distinct del: get_prop.simps)
  qed
qed

lemma truthy_get_prop_obj: "truthy (get_prop e k) \<Longrightarrow> \<exists>ps. e = JObj ps"
  by (cases e) simp_all

text \<open>The request and the error of a delete, from its argument resolution.\<close>

lemma new_calls_delete:
  "new_calls this (delete p x y z this) =
     (case delete_resolve p x y z of
        Inl e \<Rightarrow> []
      | Inr (i, m, cb) \<Rightarrow>
          (case encodeURIComponent (to_string i) of
             Inl e \<Rightarrow> []
           | Inr enc \<Rightarrow>
               [\<lparr>call_method = str ''DELETE'', call_path = p @ enc @ versionQueryString,
                 call_headers = (if truthy m then [(str ''If-Match'', m)] else []),
                 call_requestBody = JNull, call_done = DeleteDone cb\<rparr>]))"
  by (simp add: delete_def outcome_simps split: sum.split)

lemma fst_delete:
  "fst (delete p x y z this) =
     (case delete_resolve p x y z of
        Inl e \<Rightarrow> Some e
      | Inr (i, m, cb) \<Rightarrow>
          (case encodeURIComponent (to_string i) of Inl e \<Rightarrow> Some e | Inr enc \<Rightarrow> None))"
  by (simp add: delete_def outcome_simps split: sum.split)

subsection \<open>Content headers, operation by operation\<close>

lemma content_createOrUpdate:
  "content_of this (createOrUpdate p e callback this) =
     (case fst (createOrUpdate p e callback this) of
        None \<Rightarrow> [(Some (JStr (str ''application/json'')),
                  Some (JStr (str ''application/json; charset=utf-8'')), e)]
      | Some err \<Rightarrow> [])"
  by (simp add: content_of_def createOrUpdate_def header_def outcome_simps Let_def
      split: sum.split)

lemma content_get:
  "content_of this (get p i getCallback this) =
     (case fst (get p i getCallback this) of
        None \<Rightarrow> [(Some (JStr (str ''application/json'')), None, JNull)]
      | Some err \<Rightarrow> [])"
  by (simp add: content_of_def get_def header_def outcome_simps Let_def split: sum.split)

lemma content_delete:
  "content_of this (delete p x y z this) =
     (case fst (delete p x y z this) of
        None \<Rightarrow> [(None, None, JNull)]
      | Some err \<Rightarrow> [])"
  by (simp add: content_of_def new_calls_delete fst_delete header_def split: sum.split)

lemma content_bulkOperation:
  "content_of this (bulkOperation b callback this) =
     (case fst (bulkOperation b callback this) of
        None \<Rightarrow> [(Some (JStr (str ''application/json'')),
                  Some (JStr (str ''application/json; charset=utf-8'')), b)]
      | Some err \<Rightarrow> [])"
  by (simp add: content_of_def bulkOperation_def header_def outcome_simps Let_def)

lemma content_getEnrollFunc:
  "content_of this (getEnrollFunc p q pageSize token done this) =
     [(Some (JStr (str ''application/json'')),
       Some (JStr (str ''application/json; charset=utf-8'')), q)]"
  by (simp add: content_of_def getEnrollFunc_def header_def outcome_simps Let_def map_of_set_prop)

lemma bodies_truthy:
  "fst (createOrUpdate p e callback this) = None \<Longrightarrow> truthy e"
  "fst (bulkOperation b callback this) = None \<Longrightarrow> truthy b"
  by (auto simp: createOrUpdate_def bulkOperation_def outcome_simps split: if_splits)

text \<open>The headers of a delete request: \<^verbatim>\<open>If-Match\<close> when it is carried, and no other.\<close>

lemma delete_header_names:
  "issued_header_names this (delete p x y z this) =
     map (\<lambda>v. case v of None \<Rightarrow> [] | Some m \<Rightarrow> [str ''If-Match''])
       (issued_headers this (delete p x y z this) (str ''If-Match''))"
proof (cases "delete_resolve p x y z")
  case (Inl e)
  then show ?thesis by (simp add: issued_defs new_calls_delete)
next
  case (Inr t)
  obtain i m cb where t: "t = (i, m, cb)" by (cases t)
  show ?thesis
    by (cases "encodeURIComponent (to_string i)") (simp_all add: issued_defs new_calls_delete Inr t)
qed

section \<open>Fetch: the empty identifier\<close>

text \<open>
  Claim C5, as the specification states it: a fetch with the empty string as identifier fails
  with the invalid-argument condition (\<^verbatim>\<open>ArgumentError\<close>). The code throws the
  missing-argument condition (\<^verbatim>\<open>ReferenceError\<close>) instead: \<^verbatim>\<open>_get\<close> tests \<^verbatim>\<open>!id\<close> only.
\<close>

theorem get_empty_identifier_not_invalid_argument:
  "fst (getIndividualEnrollment (JStr (str '''')) (JFun (str ''cb'')) client0) = Some ReferenceError \<and>
   fst (getIndividualEnrollment (JStr (str '''')) (JFun (str ''cb'')) client0) \<noteq> Some ArgumentError"
  by (simp add: getIndividualEnrollment_def get_def fst_throw)

text \<open>
  Claim C5, amended: a fetch whose identifier is the empty string fails synchronously with the
  missing-argument condition (\<^verbatim>\<open>ReferenceError\<close>), the same condition as for an absent
  identifier; the client is unchanged and no request is issued.
\<close>

theorem get_empty_identifier:
  "get endpointPrefix (JStr []) getCallback this = (Some ReferenceError, this) \<and>
   get endpointPrefix JUndefined getCallback this = (Some ReferenceError, this) \<and>
   new_calls this (get endpointPrefix (JStr []) getCallback this) = []"
  by (simp add: get_def throw_def new_calls_def)

theorem get_empty_identifier_witness:
  "get enrollmentsPrefix (JStr []) (JFun (str ''cb'')) client0 = (Some ReferenceError, client0) \<and>
   new_calls client0 (get enrollmentsPrefix (JStr []) (JFun (str ''cb'')) client0) = []"
  using get_empty_identifier [of enrollmentsPrefix "JFun (str ''cb'')" client0] by blast

section \<open>Create-or-update: argument checks\<close>

text \<open>
  Claim C6: create-or-update with an absent (falsy) entity fails with the missing-argument
  condition (\<^verbatim>\<open>ReferenceError\<close>); with an entity whose identifier field (\<^verbatim>\<open>registrationId\<close> for
  enrollments, \<^verbatim>\<open>enrollmentGroupId\<close> for groups) is empty or absent it fails with the
  invalid-argument condition (\<^verbatim>\<open>ArgumentError\<close>); whenever it fails the client is unchanged and
  no request is issued.
\<close>

theorem createOrUpdate_argument_checks:
  "(\<not> truthy enrollment \<longrightarrow>
      createOrUpdate endpointPrefix enrollment callback this = (Some ReferenceError, this)) \<and>
   (truthy enrollment \<and> \<not> truthy (get_prop enrollment (str ''registrationId'')) \<longrightarrow>
      createOrUpdateIndividualEnrollment enrollment callback this = (Some ArgumentError, this)) \<and>
   (truthy enrollment \<and> \<not> truthy (get_prop enrollment (str ''enrollmentGroupId'')) \<longrightarrow>
      createOrUpdateEnrollmentGroup enrollment callback this = (Some ArgumentError, this)) \<and>
   (truthy enrollment \<and> \<not> truthy (get_prop enrollment (idField endpointPrefix)) \<longrightarrow>
      createOrUpdate endpointPrefix enrollment callback this = (Some ArgumentError, this)) \<and>
   (fst (createOrUpdate endpointPrefix enrollment callback this) \<noteq> None \<longrightarrow>
      snd (createOrUpdate endpointPrefix enrollment callback this) = this \<and>
      new_calls this (createOrUpdate endpointPrefix enrollment callback this) = [])"
  by (simp add: createOrUpdate_def createOrUpdateIndividualEnrollment_def
      createOrUpdateEnrollmentGroup_def idField_def throw_def send_def new_calls_def Let_def
      enrollmentsPrefix_def enrollmentGroupsPrefix_def split: sum.split)

theorem createOrUpdate_argument_checks_witness:
  "createOrUpdate enrollmentsPrefix JUndefined (JFun (str ''cb'')) client0
     = (Some ReferenceError, client0) \<and>
   createOrUpdateIndividualEnrollment
      (JObj [(str ''registrationId'', JStr []), (str ''etag'', JStr (str ''e''))])
      (JFun (str ''cb'')) client0 = (Some ArgumentError, client0) \<and>
   createOrUpdateEnrollmentGroup (JObj [(str ''registrationId'', JStr (str ''r1''))])
      (JFun (str ''cb'')) client0 = (Some ArgumentError, client0) \<and>
   new_calls client0 (createOrUpdate enrollmentsPrefix JUndefined (JFun (str ''cb'')) client0) = []"
  using createOrUpdate_argument_checks [of JUndefined enrollmentsPrefix "JFun (str ''cb'')" client0]
    createOrUpdate_argument_checks
      [of "JObj [(str ''registrationId'', JStr []), (str ''etag'', JStr (str ''e''))]"
        enrollmentsPrefix "JFun (str ''cb'')" client0]
    createOrUpdate_argument_checks
      [of "JObj [(str ''registrationId'', JStr (str ''r1''))]" enrollmentsPrefix
        "JFun (str ''cb'')" client0]
  by (simp add: new_calls_def)

section \<open>Construction: the configuration is validated first\<close>

text \<open>
  Claim C9: the constructor fails with the missing-configuration condition (\<^verbatim>\<open>ReferenceError\<close>)
  when the configuration is absent, and with the invalid-configuration condition
  (\<^verbatim>\<open>ArgumentError\<close>) when the configuration is present and its host or its credential is
  missing; in both cases no \<^verbatim>\<open>RestApiClient\<close> is instantiated. (A valid configuration with no
  transport supplied instantiates one; with a transport supplied, none.)
\<close>

theorem constructor_validates_configuration:
  "(\<not> truthy config \<longrightarrow>
      constructor pkg config restApiClient n = (Inl ReferenceError, n)) \<and>
   (truthy config \<and>
      (\<not> truthy (get_prop config (str ''host'')) \<or>
       \<not> truthy (get_prop config (str ''sharedAccessSignature''))) \<longrightarrow>
      constructor pkg config restApiClient n = (Inl ArgumentError, n)) \<and>
   (truthy config \<and> truthy (get_prop config (str ''host'')) \<and>
      truthy (get_prop config (str ''sharedAccessSignature'')) \<longrightarrow>
      constructor pkg config None n =
        (Inr \<lparr>this_config = config,
              this_restApiClient =
                new_RestApiClient config (pkg_name pkg @ str ''/'' @ pkg_version pkg)\<rparr>,
         Suc n) \<and>
      constructor pkg config (Some r) n = (Inr \<lparr>this_config = config, this_restApiClient = r\<rparr>, n))"
  by (simp add: constructor_def)

theorem constructor_validates_configuration_witness:
  "constructor \<lparr>pkg_name = str ''p'', pkg_version = str ''1''\<rparr> JUndefined None 0
     = (Inl ReferenceError, 0) \<and>
   constructor \<lparr>pkg_name = str ''p'', pkg_version = str ''1''\<rparr>
     (JObj [(str ''host'', JStr (str ''h''))]) None 0 = (Inl ArgumentError, 0) \<and>
   constructor \<lparr>pkg_name = str ''p'', pkg_version = str ''1''\<rparr>
     (JObj [(str ''sharedAccessSignature'', JStr (str ''s''))]) None 0 = (Inl ArgumentError, 0) \<and>
   snd (constructor \<lparr>pkg_name = str ''p'', pkg_version = str ''1''\<rparr> config0 None 0) = 1"
  using constructor_validates_configuration
      [of JUndefined "\<lparr>pkg_name = str ''p'', pkg_version = str ''1''\<rparr>" None 0]
    constructor_validates_configuration
      [of "JObj [(str ''host'', JStr (str ''h''))]"
        "\<lparr>pkg_name = str ''p'', pkg_version = str ''1''\<rparr>" None 0]
    constructor_validates_configuration
      [of "JObj [(str ''sharedAccessSignature'', JStr (str ''s''))]"
        "\<lparr>pkg_name = str ''p'', pkg_version = str ''1''\<rparr>" None 0]
    constructor_validates_configuration
      [of config0 "\<lparr>pkg_name = str ''p'', pkg_version = str ''1''\<rparr>" None 0]
  by (simp add: config0_def)

section \<open>Bulk operation: the request\<close>

text \<open>
  A bulk operation with a present argument issues exactly one request: a \<^verbatim>\<open>POST\<close> with both
  content headers and the operation set as its body; with an absent argument it throws
  \<^verbatim>\<open>ReferenceError\<close> and issues none.
\<close>

lemma bulkOperation_request:
  "truthy bulkOp \<Longrightarrow>
     new_calls this (bulkOperation bulkOp callback this) =
       [\<lparr>call_method = str ''POST'', call_path = enrollmentsPrefix @ versionQueryString,
         call_headers = [(str ''Accept'', JStr (str ''application/json'')),
                         (str ''Content-Type'', JStr (str ''application/json; charset=utf-8''))],
         call_requestBody = bulkOp, call_done = BulkDone callback\<rparr>]"
  by (simp add: bulkOperation_def outcome_simps)

lemma bulkOperation_absent:
  "\<not> truthy bulkOp \<Longrightarrow> bulkOperation bulkOp callback this = (Some ReferenceError, this)"
  by (simp add: bulkOperation_def throw_def)

text \<open>
  Claim C8 says that the path of the bulk request is \<^verbatim>\<open>/enrollments\<close> followed by the version
  query string, as the requirement quoted in \<^verbatim>\<open>bulkOperation\<close> does
  (\<^verbatim>\<open>POST /enrollments?api-version=<version>\<close>). The code concatenates the enrollment prefix,
  which ends in a slash, and the query string: on the bulk operation
  \<^verbatim>\<open>{mode: 'create', enrollments: []}\<close> the one request issued is a \<^verbatim>\<open>POST\<close> to
  \<^verbatim>\<open>/enrollments/?api-version=2017-08-31-preview\<close>, which is not the path of the claim.
\<close>

theorem bulkOperation_path_has_trailing_slash:
  "issued_methods client0
     (bulkOperation (JObj [(str ''mode'', JStr (str ''create'')), (str ''enrollments'', JArr [])])
        JUndefined client0)
     = [str ''POST''] \<and>
   issued_paths client0
     (bulkOperation (JObj [(str ''mode'', JStr (str ''create'')), (str ''enrollments'', JArr [])])
        JUndefined client0)
     = [str ''/enrollments/?api-version=2017-08-31-preview''] \<and>
   str ''/enrollments/?api-version=2017-08-31-preview'' \<noteq> str ''/enrollments'' @ versionQueryString"
  by (simp add: bulkOperation_def issued_defs outcome_simps enrollmentsPrefix_def
      versionQueryString_def str_append [symmetric])

section \<open>Query pages: the page-size header\<close>

text \<open>
  Claim C7, as the specification states it: a cursor configured with a negative page size
  issues its page requests without the header \<^verbatim>\<open>x-ms-max-item-count\<close>. The code tests
  \<^verbatim>\<open>if (pageSize)\<close>, which a negative number passes: with page size \<open>-1\<close> the request carries
  \<^verbatim>\<open>x-ms-max-item-count: -1\<close>.
\<close>

theorem negative_page_size_is_attached:
  "issued_headers client0
     (createQueryIndividualEnrollment (JObj [(str ''query'', JStr (str ''*''))]) (JNum (- 1))
        JUndefined (JFun (str ''done'')) client0) (str ''x-ms-max-item-count'')
     = [Some (JNum (- 1))]"
  by (simp add: createQueryIndividualEnrollment_def getEnrollFunc_def issued_defs outcome_simps)

text \<open>
  Claim C7, amended: every page request carries the header \<^verbatim>\<open>x-ms-max-item-count\<close>, with the
  configured page size as its value, if and only if the configured page size is truthy; for a
  number that is: neither zero nor NaN. A cursor configured with page size zero, with NaN or
  with none issues its requests without the header; a negative page size is attached as it is.
\<close>

theorem page_size_header_iff_truthy:
  "issued_headers this (getEnrollFunc prefix querySpecification pageSize continuationToken done this)
     (str ''x-ms-max-item-count'') = [if truthy pageSize then Some pageSize else None] \<and>
   issued_headers this (getEnrollFunc prefix querySpecification (JNum n) continuationToken done this)
     (str ''x-ms-max-item-count'') = [if n = 0 then None else Some (JNum n)] \<and>
   issued_headers this (getEnrollFunc prefix querySpecification JNaN continuationToken done this)
     (str ''x-ms-max-item-count'') = [None] \<and>
   issued_headers this (getEnrollFunc prefix querySpecification JUndefined continuationToken done this)
     (str ''x-ms-max-item-count'') = [None]"
  by (simp add: getEnrollFunc_def issued_defs outcome_simps map_of_set_prop Let_def)

theorem page_size_header_iff_truthy_witness:
  "issued_headers client0
     (getEnrollFunc enrollmentsPrefix (JObj []) (JNum 10) (JStr (str ''t1'')) (JFun (str ''done''))
        client0)
     (str ''x-ms-max-item-count'') = [Some (JNum 10)] \<and>
   issued_headers client0
     (getEnrollFunc enrollmentsPrefix (JObj []) (JNum 0) (JStr (str ''t1'')) (JFun (str ''done''))
        client0)
     (str ''x-ms-max-item-count'') = [None] \<and>
   issued_headers client0
     (getEnrollFunc enrollmentsPrefix (JObj []) JNaN (JStr (str ''t1'')) (JFun (str ''done''))
        client0)
     (str ''x-ms-max-item-count'') = [None]"
  using page_size_header_iff_truthy
      [of client0 enrollmentsPrefix "JObj []" "JNum 10" "JStr (str ''t1'')" "JFun (str ''done'')" 0]
    page_size_header_iff_truthy
      [of client0 enrollmentsPrefix "JObj []" "JNum 0" "JStr (str ''t1'')" "JFun (str ''done'')" 0]
  by simp

section \<open>Delete: the conditional-write header\<close>

text \<open>
  Claim C1, as the specification states it: a delete with an identifier and a string second
  argument attaches \<^verbatim>\<open>If-Match\<close> equal to that string. With the empty string as second argument
  the code takes the branch \<^verbatim>\<open>!etagOrCallback\<close>: the request is issued without \<^verbatim>\<open>If-Match\<close>.
\<close>

theorem delete_empty_etag_no_if_match:
  "issued_headers client0
     (deleteIndividualEnrollment (JStr (str ''r1'')) (JStr []) JUndefined client0)
     (str ''If-Match'') = [None]"
  by (simp add: deleteIndividualEnrollment_def issued_defs new_calls_delete
      delete_resolve_identifier encode_defs)

text \<open>
  Claim C1, amended. In each case below the identifier is a well-formed string (one that
  \<^verbatim>\<open>encodeURIComponent\<close> accepts), exactly one \<^verbatim>\<open>DELETE\<close> request is issued, and:
  with a non-empty identifier and no further argument it carries no \<^verbatim>\<open>If-Match\<close>;
  with a non-empty identifier and a non-empty string as second argument (the third absent or a
  handler) it carries \<^verbatim>\<open>If-Match\<close> equal to that string;
  with a non-empty identifier and a handler as second argument it carries no \<^verbatim>\<open>If-Match\<close>, and
  that handler is the one the completion invokes (with the error, or with null);
  with an entity that carries its identifier field (the second argument absent or a handler) it
  carries \<^verbatim>\<open>If-Match\<close> equal to the entity's \<^verbatim>\<open>etag\<close> field when that field is non-empty, and no
  \<^verbatim>\<open>If-Match\<close> when the field is absent or empty.
  (A delete by an identifier with an unpaired surrogate issues no request at all.)
\<close>

theorem delete_conditional_header:
  "(s \<noteq> [] \<and> well_formed s \<longrightarrow>
      issued_headers this (delete p (JStr s) JUndefined JUndefined this) (str ''If-Match'')
        = [None]) \<and>
   (s \<noteq> [] \<and> well_formed s \<and> etag \<noteq> [] \<and> (\<not> truthy z \<or> typeof z = str ''function'') \<longrightarrow>
      issued_headers this (delete p (JStr s) (JStr etag) z this) (str ''If-Match'')
        = [Some (JStr etag)]) \<and>
   (s \<noteq> [] \<and> well_formed s \<longrightarrow>
      issued_headers this (delete p (JStr s) (JFun h) z this) (str ''If-Match'') = [None] \<and>
      issued_done this (delete p (JStr s) (JFun h) z this) = [DeleteDone (JFun h)] \<and>
      issued_completions this (delete p (JStr s) (JFun h) z this) err res resp =
        [Inr [(JFun h, [if truthy err then err else JNull])]]) \<and>
   (p \<in> {enrollmentsPrefix, enrollmentGroupsPrefix, registrationsPrefix} \<and>
    truthy (get_prop e (idField p)) \<and> well_formed (to_string (get_prop e (idField p))) \<and>
    (\<not> truthy y \<or> typeof y = str ''function'') \<longrightarrow>
      issued_headers this (delete p e y z this) (str ''If-Match'') =
        [if truthy (get_prop e (str ''etag'')) then Some (get_prop e (str ''etag'')) else None]) \<and>
   (s \<noteq> [] \<and> \<not> well_formed s \<longrightarrow>
      issued_headers this (delete p (JStr s) y z this) (str ''If-Match'') = [])"
proof -
  have enc: "\<exists>r. encodeURIComponent t = Inr r" if "well_formed t" for t
    using that by (simp add: encodeURIComponent_well_formed)
  have a: "s \<noteq> [] \<and> well_formed s \<longrightarrow>
      issued_headers this (delete p (JStr s) JUndefined JUndefined this) (str ''If-Match'')
        = [None]"
    using enc [of s]
    by (auto simp: new_calls_delete delete_resolve_identifier issued_defs)
  have b: "s \<noteq> [] \<and> well_formed s \<and> etag \<noteq> [] \<and> (\<not> truthy z \<or> typeof z = str ''function'') \<longrightarrow>
      issued_headers this (delete p (JStr s) (JStr etag) z this) (str ''If-Match'')
        = [Some (JStr etag)]"
    using enc [of s]
    by (auto simp: new_calls_delete delete_resolve_identifier issued_defs)
  have c: "s \<noteq> [] \<and> well_formed s \<longrightarrow>
      issued_headers this (delete p (JStr s) (JFun h) z this) (str ''If-Match'') = [None] \<and>
      issued_done this (delete p (JStr s) (JFun h) z this) = [DeleteDone (JFun h)] \<and>
      issued_completions this (delete p (JStr s) (JFun h) z this) err res resp =
        [Inr [(JFun h, [if truthy err then err else JNull])]]"
    using enc [of s]
    by (auto simp: new_calls_delete delete_resolve_identifier issued_defs call_fn_def)
  have d: "p \<in> {enrollmentsPrefix, enrollmentGroupsPrefix, registrationsPrefix} \<and>
    truthy (get_prop e (idField p)) \<and> well_formed (to_string (get_prop e (idField p))) \<and>
    (\<not> truthy y \<or> typeof y = str ''function'') \<longrightarrow>
      issued_headers this (delete p e y z this) (str ''If-Match'') =
        [if truthy (get_prop e (str ''etag'')) then Some (get_prop e (str ''etag'')) else None]"
  proof (intro impI, elim conjE)
    assume p: "p \<in> {enrollmentsPrefix, enrollmentGroupsPrefix, registrationsPrefix}"
      and i: "truthy (get_prop e (idField p))"
      and w: "well_formed (to_string (get_prop e (idField p)))"
      and y: "\<not> truthy y \<or> typeof y = str ''function''"
    from i obtain ps where e: "e = JObj ps" using truthy_get_prop_obj by blast
    from enc [OF w] obtain r where r: "encodeURIComponent (to_string (get_prop (JObj ps) (idField p))) = Inr r"
      unfolding e by blast
    from y show "issued_headers this (delete p e y z this) (str ''If-Match'') =
        [if truthy (get_prop e (str ''etag'')) then Some (get_prop e (str ''etag'')) else None]"
      unfolding e new_calls_delete issued_defs delete_resolve_entity [OF p i [unfolded e]]
      by (auto simp: r simp del: get_prop.simps)
  qed
  have f: "s \<noteq> [] \<and> \<not> well_formed s \<longrightarrow>
      issued_headers this (delete p (JStr s) y z this) (str ''If-Match'') = []"
    using encodeURIComponent_ill_formed [of s]
    by (auto simp: new_calls_delete delete_resolve_identifier issued_defs)
  show ?thesis using a b c d f by blast
qed

theorem delete_conditional_header_witness:
  "issued_headers client0
     (delete enrollmentsPrefix (JStr (str ''r1'')) JUndefined JUndefined client0) (str ''If-Match'')
     = [None] \<and>
   issued_headers client0
     (delete enrollmentsPrefix (JStr (str ''r1'')) (JStr (str ''abc'')) (JFun (str ''cb'')) client0)
     (str ''If-Match'') = [Some (JStr (str ''abc''))] \<and>
   issued_done client0
     (delete enrollmentsPrefix (JStr (str ''r1'')) (JFun (str ''cb'')) JUndefined client0)
     = [DeleteDone (JFun (str ''cb''))] \<and>
   issued_headers client0
     (delete enrollmentsPrefix
        (JObj [(str ''registrationId'', JStr (str ''r1'')), (str ''etag'', JStr (str ''x''))])
        JUndefined JUndefined client0) (str ''If-Match'') = [Some (JStr (str ''x''))] \<and>
   issued_headers client0
     (delete enrollmentGroupsPrefix (JObj [(str ''enrollmentGroupId'', JStr (str ''g1''))])
        (JFun (str ''cb'')) JUndefined client0) (str ''If-Match'') = [None]"
proof -
  have w: "well_formed (str ''r1'')" "well_formed (str ''g1'')"
    by (simp_all add: str_def highSurrogate_def lowSurrogate_def)
  show ?thesis
    using delete_conditional_header
        [where s = "str ''r1''" and etag = "str ''abc''" and z = "JFun (str ''cb'')"
           and this = client0 and p = enrollmentsPrefix and h = "str ''cb''"
           and e = "JObj [(str ''registrationId'', JStr (str ''r1'')), (str ''etag'', JStr (str ''x''))]"
           and y = JUndefined]
      delete_conditional_header
        [where s = "str ''r1''" and z = JUndefined and this = client0
           and p = enrollmentsPrefix and h = "str ''cb''"]
      delete_conditional_header
        [where this = client0 and p = enrollmentGroupsPrefix
           and e = "JObj [(str ''enrollmentGroupId'', JStr (str ''g1''))]"
           and y = "JFun (str ''cb'')" and z = JUndefined]
      w
    by (simp add: idField_prefixes)
qed

section \<open>Delete by identifier: when the request is conditional\<close>

text \<open>
  Claim C3, as the specification states it: a delete invoked with a bare identifier never
  carries \<^verbatim>\<open>If-Match\<close>, whatever the remaining arguments. With a string as second argument the
  code sets \<^verbatim>\<open>ifMatch\<close> to it: the delete of \<^verbatim>\<open>r1\<close> with second argument \<^verbatim>\<open>abc\<close> carries
  \<^verbatim>\<open>If-Match: abc\<close>.
\<close>

theorem delete_by_identifier_with_etag_is_conditional:
  "issued_headers client0
     (deleteIndividualEnrollment (JStr (str ''r1'')) (JStr (str ''abc'')) JUndefined client0)
     (str ''If-Match'') = [Some (JStr (str ''abc''))]"
  by (simp add: deleteIndividualEnrollment_def issued_defs new_calls_delete
      delete_resolve_identifier encode_defs)

text \<open>
  Claim C3, amended: a delete invoked with an identifier string as first argument issues a
  request that carries \<^verbatim>\<open>If-Match\<close> exactly when the second argument is a non-empty string, and
  then \<^verbatim>\<open>If-Match\<close> is that string; when the second argument is absent, empty or a handler the
  request carries no \<^verbatim>\<open>If-Match\<close>. (When the call throws, no request is issued.)
\<close>

theorem delete_by_identifier_if_match:
  "issued_headers this (delete p (JStr s) y z this) (str ''If-Match'') =
     (case fst (delete p (JStr s) y z this) of
        Some e \<Rightarrow> []
      | None \<Rightarrow> [if typeof y = str ''string'' \<and> truthy y then Some y else None])"
proof (cases "s = []")
  case True
  then show ?thesis
    by (simp add: issued_defs new_calls_delete fst_delete delete_resolve_def)
next
  case False
  then show ?thesis
    by (cases "encodeURIComponent s")
      (auto simp: issued_defs new_calls_delete fst_delete delete_resolve_identifier)
qed

theorem delete_by_identifier_if_match_witness:
  "issued_headers client0
     (delete enrollmentsPrefix (JStr (str ''r1'')) JUndefined (JFun (str ''cb'')) client0)
     (str ''If-Match'') = [None] \<and>
   issued_headers client0
     (delete enrollmentsPrefix (JStr (str ''r1'')) (JFun (str ''cb'')) JUndefined client0)
     (str ''If-Match'') = [None] \<and>
   issued_headers client0
     (delete enrollmentsPrefix (JStr (str ''r1'')) (JStr (str ''abc'')) JUndefined client0)
     (str ''If-Match'') = [Some (JStr (str ''abc''))]"
proof -
  have "fst (delete enrollmentsPrefix (JStr (str ''r1'')) JUndefined (JFun (str ''cb'')) client0) = None"
    "fst (delete enrollmentsPrefix (JStr (str ''r1'')) (JFun (str ''cb'')) JUndefined client0) = None"
    "fst (delete enrollmentsPrefix (JStr (str ''r1'')) (JStr (str ''abc'')) JUndefined client0) = None"
    by (simp_all add: fst_delete delete_resolve_identifier encode_defs)
  then show ?thesis
    using delete_by_identifier_if_match
        [of client0 enrollmentsPrefix "str ''r1''" JUndefined "JFun (str ''cb'')"]
      delete_by_identifier_if_match
        [of client0 enrollmentsPrefix "str ''r1''" "JFun (str ''cb'')" JUndefined]
      delete_by_identifier_if_match
        [of client0 enrollmentsPrefix "str ''r1''" "JStr (str ''abc'')" JUndefined]
    by simp
qed

section \<open>Delete by identifier: the empty string as entity tag\<close>

text \<open>
  Claim C10, as stated: for every non-empty identifier string, a delete with the empty string
  as second argument raises no error. The path is built with \<^verbatim>\<open>encodeURIComponent\<close>, which
  throws on an unpaired surrogate: the delete of the one-unit string made of the high surrogate \<open>0xD800\<close> with second
  argument \<^verbatim>\<open>''\<close> passes the argument checks and throws \<^verbatim>\<open>URIError\<close>.
\<close>

theorem delete_unpaired_surrogate_raises:
  "fst (deleteIndividualEnrollment (JStr [0xD800]) (JStr []) (JFun (str ''cb'')) client0)
     = Some URIError"
  by (simp add: deleteIndividualEnrollment_def fst_delete delete_resolve_identifier encode_defs)

text \<open>
  Claim C10, amended: a delete with a non-empty identifier string and the empty string as
  second argument behaves exactly as with the second argument absent, whatever the third
  argument is. When the identifier is well formed it does not throw, its request carries no
  \<^verbatim>\<open>If-Match\<close>, and its completion closure holds no handler, so that completing the request,
  with or without an error, invokes nothing: a handler passed as third argument is dropped.
  When the identifier holds an unpaired surrogate the call throws \<^verbatim>\<open>URIError\<close> and issues no
  request.
\<close>

theorem delete_empty_etag_as_absent:
  "s \<noteq> [] \<Longrightarrow>
     delete p (JStr s) (JStr []) z this = delete p (JStr s) JUndefined z this \<and>
     (well_formed s \<longrightarrow>
        fst (delete p (JStr s) (JStr []) z this) = None \<and>
        issued_headers this (delete p (JStr s) (JStr []) z this) (str ''If-Match'') = [None] \<and>
        issued_done this (delete p (JStr s) (JStr []) z this) = [DeleteDone JUndefined] \<and>
        issued_completions this (delete p (JStr s) (JStr []) z this) err res resp = [Inr []]) \<and>
     (\<not> well_formed s \<longrightarrow>
        fst (delete p (JStr s) (JStr []) z this) = Some URIError \<and>
        new_calls this (delete p (JStr s) (JStr []) z this) = [])"
proof -
  assume s: "s \<noteq> []"
  have eq: "delete p (JStr s) (JStr []) z this = delete p (JStr s) JUndefined z this"
    using s by (simp add: delete_def delete_resolve_def)
  have good: "fst (delete p (JStr s) (JStr []) z this) = None \<and>
        issued_headers this (delete p (JStr s) (JStr []) z this) (str ''If-Match'') = [None] \<and>
        issued_done this (delete p (JStr s) (JStr []) z this) = [DeleteDone JUndefined] \<and>
        issued_completions this (delete p (JStr s) (JStr []) z this) err res resp = [Inr []]"
    if "well_formed s"
  proof -
    from that obtain r where "encodeURIComponent s = Inr r"
      using encodeURIComponent_well_formed [of s] by blast
    with s show ?thesis
      by (simp add: fst_delete new_calls_delete delete_resolve_identifier issued_defs)
  qed
  have bad: "fst (delete p (JStr s) (JStr []) z this) = Some URIError \<and>
        new_calls this (delete p (JStr s) (JStr []) z this) = []"
    if "\<not> well_formed s"
    using s encodeURIComponent_ill_formed [OF that]
    by (simp add: fst_delete new_calls_delete delete_resolve_identifier)
  show ?thesis using eq good bad by blast
qed

theorem delete_empty_etag_as_absent_witness:
  "fst (deleteIndividualEnrollment (JStr (str ''r1'')) (JStr []) (JFun (str ''cb'')) client0) = None \<and>
   issued_headers client0
     (deleteIndividualEnrollment (JStr (str ''r1'')) (JStr []) (JFun (str ''cb'')) client0)
     (str ''If-Match'') = [None] \<and>
   issued_completions client0
     (deleteIndividualEnrollment (JStr (str ''r1'')) (JStr []) (JFun (str ''cb'')) client0)
     (JStr (str ''precondition failed'')) JUndefined JUndefined = [Inr []] \<and>
   issued_completions client0
     (deleteIndividualEnrollment (JStr (str ''r1'')) (JStr []) (JFun (str ''cb'')) client0)
     JNull JUndefined JUndefined = [Inr []] \<and>
   new_calls client0
     (deleteIndividualEnrollment (JStr [0xDC00, 0x61]) (JStr []) (JFun (str ''cb'')) client0) = []"
proof -
  have n: "str ''r1'' \<noteq> []" "[0xDC00, 0x61] \<noteq> ([] :: jsstring)" by simp_all
  have w: "well_formed (str ''r1'')" "\<not> well_formed [0xDC00, 0x61]"
    by (simp_all add: str_def highSurrogate_def lowSurrogate_def)
  show ?thesis
    unfolding deleteIndividualEnrollment_def
    using delete_empty_etag_as_absent
        [OF n(1), of enrollmentsPrefix "JFun (str ''cb'')" client0
          "JStr (str ''precondition failed'')" JUndefined JUndefined]
      delete_empty_etag_as_absent
        [OF n(1), of enrollmentsPrefix "JFun (str ''cb'')" client0 JNull JUndefined JUndefined]
      delete_empty_etag_as_absent
        [OF n(2), of enrollmentsPrefix "JFun (str ''cb'')" client0]
      w
    by blast
qed

section \<open>The request path\<close>




section \<open>Content headers\<close>

text \<open>
  Claim C4, as the specification states it: every request carries \<^verbatim>\<open>Accept: application/json\<close>,
  and carries \<^verbatim>\<open>Content-Type\<close> exactly when a body is sent. Both halves fail on the code. A
  delete starts from the empty header bag: the request of the delete of \<^verbatim>\<open>r1\<close> carries no
  \<^verbatim>\<open>Accept\<close> header. The page function of a query sets \<^verbatim>\<open>Content-Type\<close> whatever the query
  specification is: with an absent (undefined) specification the request carries
  \<^verbatim>\<open>Content-Type\<close> and its body argument is undefined.
\<close>

theorem delete_without_accept_and_query_without_body:
  "issued_headers client0
     (deleteIndividualEnrollment (JStr (str ''r1'')) JUndefined JUndefined client0) (str ''Accept'')
     = [None] \<and>
   content_of client0
     (createQueryIndividualEnrollment JUndefined (JNum 10) JUndefined (JFun (str ''done'')) client0)
     = [(Some (JStr (str ''application/json'')),
         Some (JStr (str ''application/json; charset=utf-8'')), JUndefined)]"
  by (simp add: deleteIndividualEnrollment_def createQueryIndividualEnrollment_def issued_defs
      new_calls_delete delete_resolve_identifier encode_defs content_getEnrollFunc)

text \<open>
  Claim C4, amended. The headers are fixed per operation. Every create-or-update, fetch, bulk
  and query-page request carries \<^verbatim>\<open>Accept: application/json\<close>; a delete request carries neither
  \<^verbatim>\<open>Accept\<close> nor \<^verbatim>\<open>Content-Type\<close>: \<^verbatim>\<open>If-Match\<close>, when it is carried, is its only header. Every
  create-or-update, bulk and query-page request carries
  \<^verbatim>\<open>Content-Type: application/json; charset=utf-8\<close>, and no fetch or delete request does. The
  body argument of create-or-update is the entity and that of bulk the operation set, both
  present; that of a query page is the query specification as given, present or not; fetch
  and delete pass null. Each line below is the triple (\<^verbatim>\<open>Accept\<close>, \<^verbatim>\<open>Content-Type\<close>, body) of
  the one request issued, and an operation that throws issues none.
\<close>

theorem content_headers:
  "content_of this (createOrUpdate p e callback this) =
     (case fst (createOrUpdate p e callback this) of
        None \<Rightarrow> [(Some (JStr (str ''application/json'')),
                  Some (JStr (str ''application/json; charset=utf-8'')), e)]
      | Some err \<Rightarrow> []) \<and>
   content_of this (get p i getCallback this) =
     (case fst (get p i getCallback this) of
        None \<Rightarrow> [(Some (JStr (str ''application/json'')), None, JNull)]
      | Some err \<Rightarrow> []) \<and>
   content_of this (delete p x y z this) =
     (case fst (delete p x y z this) of
        None \<Rightarrow> [(None, None, JNull)]
      | Some err \<Rightarrow> []) \<and>
   issued_header_names this (delete p x y z this) =
     map (\<lambda>v. case v of None \<Rightarrow> [] | Some m \<Rightarrow> [str ''If-Match''])
       (issued_headers this (delete p x y z this) (str ''If-Match'')) \<and>
   content_of this (bulkOperation b callback this) =
     (case fst (bulkOperation b callback this) of
        None \<Rightarrow> [(Some (JStr (str ''application/json'')),
                  Some (JStr (str ''application/json; charset=utf-8'')), b)]
      | Some err \<Rightarrow> []) \<and>
   content_of this (getEnrollFunc p q pageSize token done' this) =
     [(Some (JStr (str ''application/json'')),
       Some (JStr (str ''application/json; charset=utf-8'')), q)] \<and>
   (fst (createOrUpdate p e callback this) = None \<longrightarrow> truthy e) \<and>
   (fst (bulkOperation b callback this) = None \<longrightarrow> truthy b)"
  using content_createOrUpdate [of this p e callback] content_get [of this p i getCallback]
    content_delete [of this p x y z] delete_header_names [of this p x y z]
    content_bulkOperation [of this b callback]
    content_getEnrollFunc [of this p q pageSize token done']
    bodies_truthy(1) [of p e callback this] bodies_truthy(2) [of b callback this]
  by blast

theorem content_headers_witness:
  "content_of client0
     (createOrUpdate enrollmentsPrefix (JObj [(str ''registrationId'', JStr (str ''r1''))])
        JUndefined client0) =
     [(Some (JStr (str ''application/json'')), Some (JStr (str ''application/json; charset=utf-8'')),
       JObj [(str ''registrationId'', JStr (str ''r1''))])] \<and>
   content_of client0 (get enrollmentsPrefix (JStr (str ''r1'')) (JFun (str ''cb'')) client0) =
     [(Some (JStr (str ''application/json'')), None, JNull)] \<and>
   content_of client0
     (delete enrollmentsPrefix (JStr (str ''r1'')) (JStr (str ''abc'')) JUndefined client0) =
     [(None, None, JNull)] \<and>
   issued_header_names client0
     (delete enrollmentsPrefix (JStr (str ''r1'')) (JStr (str ''abc'')) JUndefined client0) =
     [[str ''If-Match'']] \<and>
   content_of client0
     (bulkOperation (JObj [(str ''mode'', JStr (str ''create''))]) JUndefined client0) =
     [(Some (JStr (str ''application/json'')), Some (JStr (str ''application/json; charset=utf-8'')),
       JObj [(str ''mode'', JStr (str ''create''))])] \<and>
   content_of client0
     (getEnrollFunc enrollmentsPrefix JNull (JNum 10) JUndefined (JFun (str ''done'')) client0) =
     [(Some (JStr (str ''application/json'')), Some (JStr (str ''application/json; charset=utf-8'')),
       JNull)]"
proof -
  have ok:
    "fst (createOrUpdate enrollmentsPrefix (JObj [(str ''registrationId'', JStr (str ''r1''))])
       JUndefined client0) = None"
    "fst (get enrollmentsPrefix (JStr (str ''r1'')) (JFun (str ''cb'')) client0) = None"
    "fst (delete enrollmentsPrefix (JStr (str ''r1'')) (JStr (str ''abc'')) JUndefined client0) = None"
    "fst (bulkOperation (JObj [(str ''mode'', JStr (str ''create''))]) JUndefined client0) = None"
    "issued_headers client0
       (delete enrollmentsPrefix (JStr (str ''r1'')) (JStr (str ''abc'')) JUndefined client0)
       (str ''If-Match'') = [Some (JStr (str ''abc''))]"
    by (simp_all add: createOrUpdate_def get_def fst_delete new_calls_delete issued_defs
        delete_resolve_identifier bulkOperation_def fst_send enrollmentsPrefix_def
        enrollmentGroupsPrefix_def encode_defs)
  show ?thesis
    using content_headers
      [where this = client0 and p = enrollmentsPrefix
         and e = "JObj [(str ''registrationId'', JStr (str ''r1''))]" and callback = JUndefined
         and i = "JStr (str ''r1'')" and getCallback = "JFun (str ''cb'')"
         and x = "JStr (str ''r1'')" and y = "JStr (str ''abc'')" and z = JUndefined
         and b = "JObj [(str ''mode'', JStr (str ''create''))]"
         and q = JNull and pageSize = "JNum 10" and token = JUndefined
         and done' = "JFun (str ''done'')"]
      ok
    by simp
qed

end
